theory Spec2Isabelle
  imports Main "HOL-Library.Word"
begin

section \<open>Values of the content API\<close>

text \<open>
  The pages receive JSON documents from the content API and read them with property
  access, \<^verbatim>\<open>||\<close>, \<^verbatim>\<open>&&\<close>, template literals and \<^verbatim>\<open>.map\<close>. A value is a JSON
  value, or \<^verbatim>\<open>undefined\<close> (what reading an absent property gives). An object is the
  list of its properties, read with \<open>map_of\<close>. A number is a double: \<open>JNum\<close> holds the
  integers from \<open>- 2 ^ 53\<close> to \<open>2 ^ 53 - 1\<close> (a 54-bit word read as signed), which a double
  holds exactly and JavaScript prints in decimal; \<open>JNumOther\<close> is any other number of a
  JSON document (one with a fraction, or a larger one), given by the string JavaScript
  converts it to. Such a number is not zero, so it is truthy.
\<close>

datatype js =
    JUndefined
  | JNull
  | JBool bool
  | JNum "54 word"
  | JNumOther string
  | JStr string
  | JArr "js list"
  | JObj "(string \<times> js) list"

text \<open>
  What can go wrong: a TypeError thrown by the page's own code, the rejection of a
  promise of the content API or of the framework (with its reason), and the framework's
  refusal of an object as a child of an element.
\<close>

datatype error =
    TypeError
  | Rejected string
  | InvalidChild

text \<open>Sequencing of computations that may throw: the first error wins.\<close>

definition ebind :: "error + 'a \<Rightarrow> ('a \<Rightarrow> error + 'b) \<Rightarrow> error + 'b" where
  "ebind m f = (case m of Inl e \<Rightarrow> Inl e | Inr x \<Rightarrow> f x)"

text \<open>Truthiness, as \<^verbatim>\<open>||\<close> and \<^verbatim>\<open>&&\<close> test it.\<close>

fun truthy :: "js \<Rightarrow> bool" where
  "truthy JUndefined = False"
| "truthy JNull = False"
| "truthy (JBool b) = b"
| "truthy (JNum n) = (n \<noteq> 0)"
| "truthy (JNumOther s) = True"
| "truthy (JStr s) = (s \<noteq> [])"
| "truthy (JArr xs) = True"
| "truthy (JObj kvs) = True"

text \<open>\<^verbatim>\<open>a || b\<close> on values.\<close>

definition js_or :: "js \<Rightarrow> js \<Rightarrow> js" where
  "js_or a b = (if truthy a then a else b)"

text \<open>
  \<^verbatim>\<open>o.k\<close>: reading a property of \<^verbatim>\<open>undefined\<close> or \<^verbatim>\<open>null\<close> throws a TypeError, an
  absent property reads as \<^verbatim>\<open>undefined\<close>. The pages read only the properties
  \<^verbatim>\<open>data\<close>, \<^verbatim>\<open>meta\<close>, \<^verbatim>\<open>next_page\<close>, \<^verbatim>\<open>previous_page\<close>, \<^verbatim>\<open>slug\<close>, \<^verbatim>\<open>title\<close>, \<^verbatim>\<open>body\<close>,
  \<^verbatim>\<open>name\<close>, \<^verbatim>\<open>recent_posts\<close>, \<^verbatim>\<open>fields\<close>, \<^verbatim>\<open>description\<close>, \<^verbatim>\<open>price\<close>, \<^verbatim>\<open>seo_title\<close>,
  \<^verbatim>\<open>meta_description\<close>, \<^verbatim>\<open>featured_image\<close>, \<^verbatim>\<open>page\<close>; none of them is a built-in
  property of an array, string, number or boolean, where they read as \<^verbatim>\<open>undefined\<close>.
\<close>

definition field :: "(string \<times> js) list \<Rightarrow> string \<Rightarrow> js" where
  "field kvs k = (case map_of kvs k of None \<Rightarrow> JUndefined | Some v \<Rightarrow> v)"

fun get_prop :: "js \<Rightarrow> string \<Rightarrow> error + js" where
  "get_prop JUndefined k = Inl TypeError"
| "get_prop JNull k = Inl TypeError"
| "get_prop (JObj kvs) k = Inr (field kvs k)"
| "get_prop v k = Inr JUndefined"

text \<open>Decimal digits of a number, for template literals.\<close>

definition digit :: "nat \<Rightarrow> char" where
  "digit d = ''0123456789'' ! d"

function show_nat :: "nat \<Rightarrow> string" where
  "show_nat n = (if n < 10 then [digit n] else show_nat (n div 10) @ [digit (n mod 10)])"
  by pat_completeness auto
termination
  by (relation "measure (\<lambda>n. n)") auto

declare show_nat.simps [simp del]

definition show_int :: "int \<Rightarrow> string" where
  "show_int i = (if i < 0 then CHR ''-'' # show_nat (nat (- i)) else show_nat (nat i))"

fun join :: "string \<Rightarrow> string list \<Rightarrow> string" where
  "join sep [] = []"
| "join sep [s] = s"
| "join sep (s # t # ss) = s @ sep @ join sep (t # ss)"

text \<open>
  \<^verbatim>\<open>${v}\<close> in a template literal: the string conversion of a value. An array joins its
  elements with commas, \<^verbatim>\<open>null\<close> and \<^verbatim>\<open>undefined\<close> elements as the empty string.
\<close>

fun to_string :: "js \<Rightarrow> string" where
  "to_string JUndefined = ''undefined''"
| "to_string JNull = ''null''"
| "to_string (JBool b) = (if b then ''true'' else ''false'')"
| "to_string (JNum n) = show_int (sint n)"
| "to_string (JNumOther s) = s"
| "to_string (JStr s) = s"
| "to_string (JArr xs) =
     join '','' (map (\<lambda>x. if x = JUndefined \<or> x = JNull then [] else to_string x) xs)"
| "to_string (JObj kvs) = ''[object Object]''"

section \<open>Rendered output\<close>

text \<open>
  What a \<^verbatim>\<open>render()\<close> returns: a tree of elements. \<open>Tag\<close> is a host element with its
  attributes and children, \<open>InnerHTML\<close> a host element given
  \<^verbatim>\<open>dangerouslySetInnerHTML={{__html: v}}\<close>, \<open>Link\<close> the framework's link component
  with its \<^verbatim>\<open>href\<close> and its child, \<open>Head\<close> the framework's head component, \<open>Expr\<close> a
  child that is a value (\<^verbatim>\<open>{post.title}\<close>, or the left operand that \<^verbatim>\<open>&&\<close> returns when
  it is falsy), and \<open>Items\<close> a child that is an array of elements (from \<^verbatim>\<open>.map\<close>). The
  \<^verbatim>\<open>key\<close> of an element of such an array is its index, a number (an array has fewer than
  \<open>2 ^ 32\<close> elements).
\<close>

datatype element =
    Tag string "(string \<times> js) list" "element list"
  | InnerHTML string js
  | Link string element
  | Head "element list"
  | Expr js
  | Items "element list"

text \<open>\<^verbatim>\<open>v && <element>\<close> as a child.\<close>

definition js_and :: "js \<Rightarrow> element \<Rightarrow> element" where
  "js_and v e = (if truthy v then e else Expr v)"

text \<open>
  \<^verbatim>\<open>v.map((x, key) => ...)\<close>: a TypeError unless \<open>v\<close> is an array (reading \<^verbatim>\<open>map\<close> of
  \<^verbatim>\<open>undefined\<close> or \<^verbatim>\<open>null\<close> throws; on any other value that is no array \<^verbatim>\<open>map\<close> is not
  a function). The callback runs on the elements in order with their indices, and the
  first callback that throws ends the call.
\<close>

fun map_from :: "nat \<Rightarrow> (js \<Rightarrow> nat \<Rightarrow> error + 'a) \<Rightarrow> js list \<Rightarrow> error + 'a list" where
  "map_from i f [] = Inr []"
| "map_from i f (x # xs) =
     ebind (f x i) (\<lambda>y. ebind (map_from (Suc i) f xs) (\<lambda>ys. Inr (y # ys)))"

fun js_map :: "js \<Rightarrow> (js \<Rightarrow> nat \<Rightarrow> error + 'a) \<Rightarrow> error + 'a list" where
  "js_map (JArr xs) f = map_from 0 f xs"
| "js_map v f = Inl TypeError"


fun anchors :: "element \<Rightarrow> ((string \<times> js) list \<times> element list) list" where
  "anchors (Tag n as cs) =
     (if n = ''a'' then [(as, cs)] else []) @ concat (map anchors cs)"
| "anchors (InnerHTML n v) = []"
| "anchors (Link h c) = anchors c"
| "anchors (Head cs) = concat (map anchors cs)"
| "anchors (Expr v) = []"
| "anchors (Items cs) = concat (map anchors cs)"

section \<open>The index page (pages/index.js)\<close>

text \<open>
  \<^verbatim>\<open>
  render() {
    const { next_page, previous_page } = this.props.meta;
    return (
      <div>
        {this.props.data.map((post) => {
          return (<div><a href={`/post/${post.slug}`}>{post.title}</a></div>)
        })}
        <br />
        <div>
          {previous_page && <Link href={`/?page=${previous_page}`}><a>Prev</a></Link>}
          {next_page && <Link href={`/?page=${next_page}`}><a>Next</a></Link>}
        </div>
      </div>)
  }
  \<close>
  \<open>props\<close> is the object \<^verbatim>\<open>this.props\<close>, as its list of properties.
\<close>

definition index_post :: "js \<Rightarrow> nat \<Rightarrow> error + element" where
  "index_post post key =
     ebind (get_prop post ''slug'') (\<lambda>slug.
     ebind (get_prop post ''title'') (\<lambda>title.
     Inr (Tag ''div'' []
            [Tag ''a'' [(''href'', JStr (''/post/'' @ to_string slug))] [Expr title]])))"

definition pagination :: "js \<Rightarrow> js \<Rightarrow> element" where
  "pagination previous_page next_page =
     Tag ''div'' []
       [js_and previous_page
          (Link (''/?page='' @ to_string previous_page) (Tag ''a'' [] [Expr (JStr ''Prev'')])),
        js_and next_page
          (Link (''/?page='' @ to_string next_page) (Tag ''a'' [] [Expr (JStr ''Next'')]))]"

definition index_render :: "(string \<times> js) list \<Rightarrow> error + element" where
  "index_render props =
     ebind (get_prop (field props ''meta'') ''next_page'') (\<lambda>next_page.
     ebind (get_prop (field props ''meta'') ''previous_page'') (\<lambda>previous_page.
     ebind (js_map (field props ''data'') index_post) (\<lambda>posts.
     Inr (Tag ''div'' []
            [Items posts, Tag ''br'' [] [], pagination previous_page next_page]))))"


section \<open>The content API client and the effects of a request\<close>

text \<open>
  The calls the pages and the server make on the client \<^verbatim>\<open>butter\<close>, with their arguments:
  \<^verbatim>\<open>post.list(params)\<close>, \<^verbatim>\<open>post.retrieve(slug)\<close>, \<^verbatim>\<open>category.list()\<close>,
  \<^verbatim>\<open>category.retrieve(slug, params)\<close>, \<^verbatim>\<open>page.list(type)\<close>, \<^verbatim>\<open>page.retrieve(type, slug)\<close>,
  \<^verbatim>\<open>feed.retrieve(kind)\<close>.
\<close>

datatype api_call =
    PostList "(string \<times> js) list"
  | PostRetrieve js
  | CategoryList
  | CategoryRetrieve js "(string \<times> js) list"
  | PageList string
  | PageRetrieve string js
  | FeedRetrieve string

text \<open>
  A call returns a promise; the model holds how the promise settles: \<open>Inr\<close> the response
  object it resolves to, of which the code reads the property \<^verbatim>\<open>data\<close>, or \<open>Inl\<close> the
  rejection. A promise that never settles is not modelled.
\<close>

record response =
  data :: js

type_synonym client = "api_call \<Rightarrow> error + response"

text \<open>
  The effects of handling a request: the external calls made and the reinitializations
  of the render pipeline started, in order (\<open>log\<close>), and the rejections left without a
  handler (\<open>unhandled\<close>). Console output is not modelled.
\<close>

datatype event = Call api_call | Prepare

record world =
  log :: "event list"
  unhandled :: "error list"

definition request :: "client \<Rightarrow> api_call \<Rightarrow> world \<Rightarrow> (error + response) \<times> world" where
  "request butter c w = (butter c, w\<lparr>log := log w @ [Call c]\<rparr>)"

section \<open>The page resolvers (getInitialProps)\<close>

text \<open>
  Each takes the \<^verbatim>\<open>query\<close> object of its context. \<^verbatim>\<open>await\<close> of a rejected promise throws
  the rejection, and none of the resolvers has a \<^verbatim>\<open>try\<close>.

  pages/index.js:
  \<^verbatim>\<open>
  static async getInitialProps({ query }) {
    let page = query.page || 1;
    const resp = await butter.post.list({page: page, page_size: 10})
    return resp.data;
  }
  \<close>
\<close>

definition index_getInitialProps ::
  "client \<Rightarrow> (string \<times> js) list \<Rightarrow> world \<Rightarrow> (error + js) \<times> world" where
  "index_getInitialProps butter query w =
     (let page = js_or (field query ''page'') (JNum 1);
          (resp, w') = request butter (PostList [(''page'', page), (''page_size'', JNum 10)]) w
      in (ebind resp (\<lambda>r. Inr (data r)), w'))"

text \<open>pages/post.js: \<^verbatim>\<open>const resp = await butter.post.retrieve(query.slug); return resp.data;\<close>\<close>

definition post_getInitialProps ::
  "client \<Rightarrow> (string \<times> js) list \<Rightarrow> world \<Rightarrow> (error + js) \<times> world" where
  "post_getInitialProps butter query w =
     (let (resp, w') = request butter (PostRetrieve (field query ''slug'')) w
      in (ebind resp (\<lambda>r. Inr (data r)), w'))"

text \<open>pages/categories.js: \<^verbatim>\<open>const resp = await butter.category.list(); return resp.data\<close>\<close>

definition categories_getInitialProps ::
  "client \<Rightarrow> (string \<times> js) list \<Rightarrow> world \<Rightarrow> (error + js) \<times> world" where
  "categories_getInitialProps butter query w =
     (let (resp, w') = request butter CategoryList w
      in (ebind resp (\<lambda>r. Inr (data r)), w'))"

text \<open>
  pages/category.js:
  \<^verbatim>\<open>
  const resp = await butter.category.retrieve(query.slug, { include: 'recent_posts' })
  return resp.data
  \<close>
\<close>

definition category_getInitialProps ::
  "client \<Rightarrow> (string \<times> js) list \<Rightarrow> world \<Rightarrow> (error + js) \<times> world" where
  "category_getInitialProps butter query w =
     (let (resp, w') =
            request butter
              (CategoryRetrieve (field query ''slug'') [(''include'', JStr ''recent_posts'')]) w
      in (ebind resp (\<lambda>r. Inr (data r)), w'))"

text \<open>
  pages/product.js:
  \<^verbatim>\<open>const resp = await butter.page.retrieve('product', query.slug); return resp.data\<close>
\<close>

definition product_getInitialProps ::
  "client \<Rightarrow> (string \<times> js) list \<Rightarrow> world \<Rightarrow> (error + js) \<times> world" where
  "product_getInitialProps butter query w =
     (let (resp, w') = request butter (PageRetrieve ''product'' (field query ''slug'')) w
      in (ebind resp (\<lambda>r. Inr (data r)), w'))"

text \<open>pages/products.js: \<^verbatim>\<open>const resp = await butter.page.list('product'); return resp.data\<close>\<close>

definition products_getInitialProps ::
  "client \<Rightarrow> (string \<times> js) list \<Rightarrow> world \<Rightarrow> (error + js) \<times> world" where
  "products_getInitialProps butter query w =
     (let (resp, w') = request butter (PageList ''product'') w
      in (ebind resp (\<lambda>r. Inr (data r)), w'))"

text \<open>
  The parameter object a call hands to its endpoint: the first argument of
  \<^verbatim>\<open>post.list\<close>, the second of \<^verbatim>\<open>category.retrieve\<close>, and none for the other calls.
  \<open>paginated c p\<close>: the call asks for page \<open>p\<close> with a page size of 10.
\<close>

fun call_params :: "api_call \<Rightarrow> (string \<times> js) list" where
  "call_params (PostList ps) = ps"
| "call_params (CategoryRetrieve slug ps) = ps"
| "call_params c = []"

definition paginated :: "api_call \<Rightarrow> js \<Rightarrow> bool" where
  "paginated c p \<longleftrightarrow>
     field (call_params c) ''page'' = p \<and> field (call_params c) ''page_size'' = JNum 10"

section \<open>The other pages\<close>

text \<open>
  pages/post.js, as first written:
  \<^verbatim>\<open>
  render() {
    const post = this.props.data;
    return (
      <div>
        <h1>{post.title}</h1>
        <div dangerouslySetInnerHTML={{__html: post.body}} />
      </div>)
  }
  \<close>
\<close>

definition post_render :: "(string \<times> js) list \<Rightarrow> error + element" where
  "post_render props =
     ebind (get_prop (field props ''data'') ''title'') (\<lambda>title.
     ebind (get_prop (field props ''data'') ''body'') (\<lambda>body.
     Inr (Tag ''div'' [] [Tag ''h1'' [] [Expr title], InnerHTML ''div'' body])))"

text \<open>
  pages/post.js after the SEO step, which adds
  \<^verbatim>\<open>
  <Head>
    <title>{post.seo_title}</title>
    <meta name="description" content={post.meta_description} />
    <meta name="og:image" content={post.featured_image} />
  </Head>
  \<close>
  before the heading.
\<close>

definition post_render_seo :: "(string \<times> js) list \<Rightarrow> error + element" where
  "post_render_seo props =
     ebind (get_prop (field props ''data'') ''seo_title'') (\<lambda>seo_title.
     ebind (get_prop (field props ''data'') ''meta_description'') (\<lambda>meta_description.
     ebind (get_prop (field props ''data'') ''featured_image'') (\<lambda>featured_image.
     ebind (get_prop (field props ''data'') ''title'') (\<lambda>title.
     ebind (get_prop (field props ''data'') ''body'') (\<lambda>body.
     Inr (Tag ''div'' []
            [Head [Tag ''title'' [] [Expr seo_title],
                   Tag ''meta'' [(''name'', JStr ''description''), (''content'', meta_description)] [],
                   Tag ''meta'' [(''name'', JStr ''og:image''), (''content'', featured_image)] []],
             Tag ''h1'' [] [Expr title],
             InnerHTML ''div'' body]))))))"

text \<open>
  pages/categories.js:
  \<^verbatim>\<open>
  {this.props.data.map((category, key) => {
    return (
      <div key={key}>
        <a href={`/posts/category/${category.slug}`}>{category.name}</a>
      </div>)
  })}
  \<close>
  inside a \<^verbatim>\<open><div>\<close>.
\<close>

definition categories_item :: "js \<Rightarrow> nat \<Rightarrow> error + element" where
  "categories_item category key =
     ebind (get_prop category ''slug'') (\<lambda>slug.
     ebind (get_prop category ''name'') (\<lambda>name.
     Inr (Tag ''div'' [(''key'', JNum (of_nat key))]
            [Tag ''a'' [(''href'', JStr (''/posts/category/'' @ to_string slug))] [Expr name]])))"

definition categories_render :: "(string \<times> js) list \<Rightarrow> error + element" where
  "categories_render props =
     ebind (js_map (field props ''data'') categories_item) (\<lambda>items.
     Inr (Tag ''div'' [] [Items items]))"

text \<open>
  pages/category.js:
  \<^verbatim>\<open>
  render () {
    const category = this.props.data
    return (
      <div>
        <Head><title>{category.name}</title></Head>
        <h1>{category.name}</h1>
        <div>
          {this.props.data.recent_posts.map((post, key) => {
            return (<div key={key}><a href={`/posts/${post.slug}`}>{post.title}</a></div>)
          })}
        </div>
      </div>)
  }
  \<close>
\<close>

definition category_post :: "js \<Rightarrow> nat \<Rightarrow> error + element" where
  "category_post post key =
     ebind (get_prop post ''slug'') (\<lambda>slug.
     ebind (get_prop post ''title'') (\<lambda>title.
     Inr (Tag ''div'' [(''key'', JNum (of_nat key))]
            [Tag ''a'' [(''href'', JStr (''/posts/'' @ to_string slug))] [Expr title]])))"

definition category_render :: "(string \<times> js) list \<Rightarrow> error + element" where
  "category_render props =
     ebind (get_prop (field props ''data'') ''name'') (\<lambda>name.
     ebind (get_prop (field props ''data'') ''recent_posts'') (\<lambda>recent_posts.
     ebind (js_map recent_posts category_post) (\<lambda>posts.
     Inr (Tag ''div'' []
            [Head [Tag ''title'' [] [Expr name]],
             Tag ''h1'' [] [Expr name],
             Tag ''div'' [] [Items posts]]))))"

text \<open>
  pages/product.js:
  \<^verbatim>\<open>
  render () {
    const product = this.props.data
    const { title, description, price } = product.fields
    return (
      <div>
        <Head><title>{title}</title></Head>
        <h1>{title}</h1>
        <div dangerouslySetInnerHTML={{ __html: description }} />
        <span>
          <strong>Price : </strong> {price}
        </span>
      </div>)
  }
  \<close>
\<close>

definition product_render :: "(string \<times> js) list \<Rightarrow> error + element" where
  "product_render props =
     ebind (get_prop (field props ''data'') ''fields'') (\<lambda>fields.
     ebind (get_prop fields ''title'') (\<lambda>title.
     ebind (get_prop fields ''description'') (\<lambda>description.
     ebind (get_prop fields ''price'') (\<lambda>price.
     Inr (Tag ''div'' []
            [Head [Tag ''title'' [] [Expr title]],
             Tag ''h1'' [] [Expr title],
             InnerHTML ''div'' description,
             Tag ''span'' []
               [Tag ''strong'' [] [Expr (JStr ''Price : '')], Expr (JStr '' ''), Expr price]])))))"

text \<open>
  pages/products.js:
  \<^verbatim>\<open>
  {this.props.data.map((product, key) => {
    return (
      <div key={key}>
        <a href={`/product/${product.slug}`}>{product.fields.title}</a>
      </div>)
  })}
  \<close>
  inside a \<^verbatim>\<open><div>\<close>.
\<close>

definition products_item :: "js \<Rightarrow> nat \<Rightarrow> error + element" where
  "products_item product key =
     ebind (get_prop product ''slug'') (\<lambda>slug.
     ebind (get_prop product ''fields'') (\<lambda>fields.
     ebind (get_prop fields ''title'') (\<lambda>title.
     Inr (Tag ''div'' [(''key'', JNum (of_nat key))]
            [Tag ''a'' [(''href'', JStr (''/product/'' @ to_string slug))] [Expr title]]))))"

definition products_render :: "(string \<times> js) list \<Rightarrow> error + element" where
  "products_render props =
     ebind (js_map (field props ''data'') products_item) (\<lambda>items.
     Inr (Tag ''div'' [] [Items items]))"

section \<open>The render pipeline (the framework, an external collaborator)\<close>

text \<open>
  The response of the server to one request: the status code (200 unless a handler sets
  another) and what was written, \<open>None\<close> while nothing has been written. \<open>Empty\<close> is
  \<^verbatim>\<open>res.end()\<close>, \<open>Text s\<close> is a body of exactly the text \<open>s\<close>, \<open>Document m\<close> is a page the
  framework rendered, \<open>m\<close> being the markup of the page component, and \<open>ErrorPage\<close> is an
  error page of the framework or of the router. A request carries no conditional headers.
\<close>

datatype body = Empty | Text string | Document string | ErrorPage

record res =
  statusCode :: nat
  written :: "body option"

definition res0 :: res where
  "res0 = \<lparr>statusCode = 200, written = None\<rparr>"

definition res_status :: "nat \<Rightarrow> res \<Rightarrow> res" where
  "res_status n r = r\<lparr>statusCode := n\<rparr>"

definition res_end :: "res \<Rightarrow> res" where
  "res_end r = r\<lparr>written := Some Empty\<rparr>"

text \<open>
  \<^verbatim>\<open>res.send(v)\<close>: a string is written as the body as it is and the status is left as it
  was. For a value that is no string the router derives status and body from the value (a
  number becomes the status, an object is encoded); that part of the router is the
  parameter \<open>send_value\<close>, which may also throw.
\<close>

definition res_send :: "(js \<Rightarrow> res \<Rightarrow> error + res) \<Rightarrow> js \<Rightarrow> res \<Rightarrow> error + res" where
  "res_send send_value v r =
     (case v of
        JStr s \<Rightarrow> Inr (r\<lparr>written := Some (Text s)\<rparr>)
      | _ \<Rightarrow> send_value v r)"

text \<open>
  The markup the framework sends for an element tree, as React's \<^verbatim>\<open>renderToString\<close>
  (React 16) writes it. The children of an element are flattened to text nodes and
  elements: \<^verbatim>\<open>null\<close>, \<^verbatim>\<open>undefined\<close>, booleans and the empty string give no node, a string
  or number gives a text node, an array child gives the nodes of its elements, and an
  object as a child is refused. A text node is entity-escaped, and a text node right after
  another text node is set off by \<^verbatim>\<open><!-- -->\<close>. The value of \<^verbatim>\<open>dangerouslySetInnerHTML\<close> is
  inserted as it is. The \<^verbatim>\<open>key\<close> of an element is no attribute of the markup, nor is an
  attribute that is \<^verbatim>\<open>null\<close>, \<^verbatim>\<open>undefined\<close> or a boolean. The root element carries the
  attribute \<^verbatim>\<open>data-reactroot=""\<close> after its own. \<open>Link\<close> hands its \<^verbatim>\<open>href\<close> to a child
  \<^verbatim>\<open><a>\<close> that has none; \<open>Head\<close> gives no node in place (its children go to the head of the
  document, which is not modelled).
\<close>

definition escape_char :: "char \<Rightarrow> string" where
  "escape_char c =
     (if c = CHR ''&'' then ''&amp;''
      else if c = CHR ''<'' then ''&lt;''
      else if c = CHR ''>'' then ''&gt;''
      else if c = CHR 0x22 then ''&quot;''
      else if c = CHR 0x27 then ''&#x27;''
      else [c])"

definition escape_html :: "string \<Rightarrow> string" where
  "escape_html s = concat (map escape_char s)"

fun valid_child :: "js \<Rightarrow> bool" where
  "valid_child (JObj kvs) = False"
| "valid_child (JArr xs) = list_all valid_child xs"
| "valid_child v = True"

fun texts_of :: "js \<Rightarrow> string list" where
  "texts_of (JStr s) = (if s = [] then [] else [s])"
| "texts_of (JNum n) = [show_int (sint n)]"
| "texts_of (JNumOther s) = [s]"
| "texts_of (JArr xs) = concat (map texts_of xs)"
| "texts_of v = []"

datatype node = TextNode string | ElementNode string

fun join_nodes :: "bool \<Rightarrow> node list \<Rightarrow> string" where
  "join_nodes after_text [] = []"
| "join_nodes after_text (TextNode t # ns) =
     (if after_text then ''<!-- -->'' else []) @ escape_html t @ join_nodes True ns"
| "join_nodes after_text (ElementNode m # ns) = m @ join_nodes False ns"

definition attr_html :: "string \<times> js \<Rightarrow> string" where
  "attr_html a =
     (case snd a of
        JUndefined \<Rightarrow> []
      | JNull \<Rightarrow> []
      | JBool b \<Rightarrow> []
      | v \<Rightarrow>
          (if fst a = ''key'' then []
           else '' '' @ fst a @ ''='' @ [CHR 0x22] @ escape_html (to_string v) @ [CHR 0x22]))"

definition tag_html :: "string \<Rightarrow> (string \<times> js) list \<Rightarrow> string \<Rightarrow> string" where
  "tag_html n as inner =
     (if n = ''br'' \<or> n = ''meta'' then ''<'' @ n @ concat (map attr_html as) @ ''/>''
      else ''<'' @ n @ concat (map attr_html as) @ ''>'' @ inner @ ''</'' @ n @ ''>'')"

definition root_attrs :: "bool \<Rightarrow> (string \<times> js) list" where
  "root_attrs root = (if root then [(''data-reactroot'', JStr [])] else [])"

fun nodes :: "bool \<Rightarrow> element \<Rightarrow> node list" where
  "nodes root (Tag n as cs) =
     [ElementNode (tag_html n (as @ root_attrs root)
        (join_nodes False (concat (map (nodes False) cs))))]"
| "nodes root (InnerHTML n v) =
     [ElementNode (tag_html n (root_attrs root)
        (if v = JUndefined \<or> v = JNull then [] else to_string v))]"
| "nodes root (Link h (Tag n as cs)) =
     [ElementNode (tag_html n
        ((if n = ''a'' \<and> map_of as ''href'' = None then as @ [(''href'', JStr h)] else as) @
         root_attrs root)
        (join_nodes False (concat (map (nodes False) cs))))]"
| "nodes root (Link h c) = nodes root c"
| "nodes root (Head cs) = []"
| "nodes root (Expr v) = map TextNode (texts_of v)"
| "nodes root (Items cs) = concat (map (nodes False) cs)"

definition render_to_string :: "element \<Rightarrow> string" where
  "render_to_string e = join_nodes False (nodes True e)"

fun renderable :: "element \<Rightarrow> bool" where
  "renderable (Tag n as cs) = list_all renderable cs"
| "renderable (InnerHTML n v) = True"
| "renderable (Link h c) = renderable c"
| "renderable (Head cs) = list_all renderable cs"
| "renderable (Expr v) = valid_child v"
| "renderable (Items cs) = list_all renderable cs"

definition render_markup :: "element \<Rightarrow> error + body" where
  "render_markup e =
     (if renderable e then Inr (Document (render_to_string e)) else Inl InvalidChild)"

text \<open>
  The pages of the application, by the path the framework knows them under (one page
  per file of \<^verbatim>\<open>./pages\<close>, \<^verbatim>\<open>/\<close> being the index page): the resolver and the render
  function of each.
\<close>

type_synonym page =
  "(client \<Rightarrow> (string \<times> js) list \<Rightarrow> world \<Rightarrow> (error + js) \<times> world) \<times>
   ((string \<times> js) list \<Rightarrow> error + element)"

definition pages :: "string \<Rightarrow> page option" where
  "pages = map_of
     [(''/'', (index_getInitialProps, index_render)),
      (''/index'', (index_getInitialProps, index_render)),
      (''/post'', (post_getInitialProps, post_render_seo)),
      (''/categories'', (categories_getInitialProps, categories_render)),
      (''/category'', (category_getInitialProps, category_render)),
      (''/product'', (product_getInitialProps, product_render)),
      (''/products'', (products_getInitialProps, products_render))]"

text \<open>
  \<^verbatim>\<open>app.render(req, res, pathname, query)\<close>: the framework runs the page's resolver with
  the query, hands the object it returns to the component as \<^verbatim>\<open>this.props\<close>, and writes
  the rendered document. An unknown page is a not-found page; a resolver or a render that
  throws, and a child that cannot be rendered, end in the framework's error page. A
  resolver result that is no object leaves the pages without the properties they read, so
  each of them throws: that is the error page too.
\<close>

definition app_render :: "client \<Rightarrow> string \<Rightarrow> (string \<times> js) list \<Rightarrow> world \<Rightarrow> res \<times> world" where
  "app_render butter pathname query w =
     (case pages pathname of
        None \<Rightarrow> (\<lparr>statusCode = 404, written = Some ErrorPage\<rparr>, w)
      | Some (getInitialProps, render) \<Rightarrow>
          (let (props, w') = getInitialProps butter query w
           in (case ebind props (\<lambda>v. case v of
                                        JObj kvs \<Rightarrow> ebind (render kvs) render_markup
                                      | _ \<Rightarrow> Inl TypeError) of
                 Inl e \<Rightarrow> (\<lparr>statusCode = 500, written = Some ErrorPage\<rparr>, w')
               | Inr doc \<Rightarrow> (\<lparr>statusCode = 200, written = Some doc\<rparr>, w'))))"

section \<open>The server (server.js)\<close>

text \<open>
  The handlers of server.js.
  \<^verbatim>\<open>
  server.post('/webhook-receiver', (req, res) => {
    app.prepare()
      .then(() => { res.end() })
      .catch((e) => { res.status(500).end() })
  })
  \<close>
  \<open>prepared\<close> is how the promise of \<^verbatim>\<open>app.prepare()\<close> settles.
\<close>

definition webhook_receiver :: "error + unit \<Rightarrow> world \<Rightarrow> res \<times> world" where
  "webhook_receiver prepared w =
     (case prepared of
        Inr u \<Rightarrow> res_end res0
      | Inl e \<Rightarrow> res_end (res_status 500 res0),
      w\<lparr>log := log w @ [Prepare]\<rparr>)"

text \<open>
  \<^verbatim>\<open>
  server.get('/sitemap', (req, res) => {
    butter.feed.retrieve('sitemap').then((s) => { res.send(s.data.data) })
  })
  \<close>
  and the same for \<^verbatim>\<open>atom\<close> and \<^verbatim>\<open>rss\<close>. The promise that \<^verbatim>\<open>then\<close> returns is dropped: when
  the call rejects, or the callback throws, nothing handles the rejection and nothing
  is written to \<^verbatim>\<open>res\<close>.
\<close>

definition feed_proxy ::
  "client \<Rightarrow> (js \<Rightarrow> res \<Rightarrow> error + res) \<Rightarrow> string \<Rightarrow> world \<Rightarrow> res \<times> world" where
  "feed_proxy butter send_value kind w =
     (let (s, w') = request butter (FeedRetrieve kind) w
      in (case ebind s (\<lambda>r.
                 ebind (get_prop (data r) ''data'') (\<lambda>payload.
                 res_send send_value payload res0)) of
            Inl e \<Rightarrow> (res0, w'\<lparr>unhandled := unhandled w' @ [e]\<rparr>)
          | Inr sent \<Rightarrow> (sent, w')))"

text \<open>
  The routes, in the order the tutorial adds them to server.js, the catch-all last (a
  route added after it would never be reached). A
  route renders a page with the query \<^verbatim>\<open>{ slug: req.params.slug }\<close> (\<open>AppRender\<close> with
  the names of the parameters it passes; \<^verbatim>\<open>/posts/categories\<close> passes no query), gives
  the request to the framework's own handler (\<open>Handle\<close>), or is one of the handlers above.
\<close>

datatype verb = GET | POST

datatype seg = Lit string | Param string

datatype pattern = Path "seg list" | Star

datatype handler =
    AppRender string "string list"
  | Handle
  | WebhookReceiver
  | FeedProxy string

definition routes :: "(verb \<times> pattern \<times> handler) list" where
  "routes =
     [(GET, Path [Lit ''posts''], AppRender ''/index'' [''slug'']),
      (GET, Path [Lit ''posts'', Param ''slug''], AppRender ''/post'' [''slug'']),
      (GET, Path [Lit ''posts'', Lit ''categories''], AppRender ''/categories'' []),
      (GET, Path [Lit ''posts'', Lit ''category'', Param ''slug''], AppRender ''/category'' [''slug'']),
      (GET, Path [Lit ''products'', Param ''slug''], AppRender ''/product'' [''slug'']),
      (POST, Path [Lit ''webhook-receiver''], WebhookReceiver),
      (GET, Path [Lit ''sitemap''], FeedProxy ''sitemap''),
      (GET, Path [Lit ''atom''], FeedProxy ''atom''),
      (GET, Path [Lit ''rss''], FeedProxy ''rss''),
      (GET, Star, Handle)]"

text \<open>
  The router (an external collaborator), as far as these patterns use it: a path is
  matched segment by segment, literal segments without regard to the case of letters, a
  parameter against one non-empty segment, and one trailing slash is allowed; \<^verbatim>\<open>*\<close>
  matches every path and captures it. The captured values are decoded with
  \<^verbatim>\<open>decodeURIComponent\<close>, here the parameter \<open>decode\<close>; a value that does not decode ends
  the request with status 400. The first route that matches path and verb handles the
  request; with none, the router answers 404.
\<close>

fun split_on :: "char \<Rightarrow> string \<Rightarrow> string list" where
  "split_on c [] = [[]]"
| "split_on c (x # xs) =
     (if x = c then [] # split_on c xs
      else (case split_on c xs of [] \<Rightarrow> [[x]] | s # ss \<Rightarrow> (x # s) # ss))"

definition segments :: "string \<Rightarrow> string list option" where
  "segments p =
     (case split_on CHR ''/'' p of
        [] # rest \<Rightarrow> Some (if rest \<noteq> [] \<and> last rest = [] then butlast rest else rest)
      | _ \<Rightarrow> None)"

definition lower :: "char \<Rightarrow> char" where
  "lower c =
     (case map_of (zip ''ABCDEFGHIJKLMNOPQRSTUVWXYZ'' ''abcdefghijklmnopqrstuvwxyz'') c of
        None \<Rightarrow> c
      | Some l \<Rightarrow> l)"

fun match_segs :: "seg list \<Rightarrow> string list \<Rightarrow> (string \<times> string) list option" where
  "match_segs [] [] = Some []"
| "match_segs (Lit l # ps) (s # ss) =
     (if map lower l = map lower s then match_segs ps ss else None)"
| "match_segs (Param n # ps) (s # ss) =
     (if s = [] then None else map_option (\<lambda>r. (n, s) # r) (match_segs ps ss))"
| "match_segs ps ss = None"

fun match_pattern :: "pattern \<Rightarrow> string \<Rightarrow> (string \<times> string) list option" where
  "match_pattern Star p = Some [(''0'', p)]"
| "match_pattern (Path ps) p =
     (case segments p of None \<Rightarrow> None | Some ss \<Rightarrow> match_segs ps ss)"

fun decode_params ::
  "(string \<Rightarrow> string option) \<Rightarrow> (string \<times> string) list \<Rightarrow> (string \<times> string) list option" where
  "decode_params decode [] = Some []"
| "decode_params decode ((n, v) # r) =
     (case decode v of
        None \<Rightarrow> None
      | Some d \<Rightarrow> map_option (\<lambda>r'. (n, d) # r') (decode_params decode r))"

datatype dispatched = NoRoute | Malformed | Found handler "(string \<times> string) list"

fun dispatch ::
  "(string \<Rightarrow> string option) \<Rightarrow> (verb \<times> pattern \<times> handler) list \<Rightarrow> verb \<Rightarrow> string \<Rightarrow>
   dispatched" where
  "dispatch decode [] m p = NoRoute"
| "dispatch decode ((m', pat, h) # rs) m p =
     (case match_pattern pat p of
        None \<Rightarrow> dispatch decode rs m p
      | Some raw \<Rightarrow>
          (case decode_params decode raw of
             None \<Rightarrow> Malformed
           | Some params \<Rightarrow> if m' = m then Found h params else dispatch decode rs m p))"

record req =
  req_method :: verb
  req_path :: string
  req_query :: "(string \<times> js) list"

text \<open>\<^verbatim>\<open>req.params.slug\<close>: \<^verbatim>\<open>undefined\<close> for a route without that parameter.\<close>

definition param :: "(string \<times> string) list \<Rightarrow> string \<Rightarrow> js" where
  "param params n = (case map_of params n of None \<Rightarrow> JUndefined | Some v \<Rightarrow> JStr v)"

fun run ::
  "client \<Rightarrow> error + unit \<Rightarrow> (js \<Rightarrow> res \<Rightarrow> error + res) \<Rightarrow> handler \<Rightarrow> (string \<times> string) list \<Rightarrow>
   req \<Rightarrow> world \<Rightarrow> res \<times> world" where
  "run butter prepared send_value (AppRender pathname names) params r w =
     app_render butter pathname (map (\<lambda>n. (n, param params n)) names) w"
| "run butter prepared send_value Handle params r w =
     app_render butter (req_path r) (req_query r) w"
| "run butter prepared send_value WebhookReceiver params r w = webhook_receiver prepared w"
| "run butter prepared send_value (FeedProxy kind) params r w =
     feed_proxy butter send_value kind w"

text \<open>
  The server: the content API client, the settlement of \<^verbatim>\<open>app.prepare()\<close>, the router's
  decoder and the router's \<^verbatim>\<open>res.send\<close> of values that are no strings are its parameters.
\<close>

definition server ::
  "client \<Rightarrow> error + unit \<Rightarrow> (string \<Rightarrow> string option) \<Rightarrow> (js \<Rightarrow> res \<Rightarrow> error + res) \<Rightarrow>
   req \<Rightarrow> world \<Rightarrow> res \<times> world" where
  "server butter prepared decode send_value r w =
     (case dispatch decode routes (req_method r) (req_path r) of
        NoRoute \<Rightarrow> (\<lparr>statusCode = 404, written = Some ErrorPage\<rparr>, w)
      | Malformed \<Rightarrow> (\<lparr>statusCode = 400, written = Some ErrorPage\<rparr>, w)
      | Found h params \<Rightarrow> run butter prepared send_value h params r w)"


definition stub :: "response \<Rightarrow> client" where
  "stub r = (\<lambda>c. Inr r)"

definition failing :: "string \<Rightarrow> client" where
  "failing reason = (\<lambda>c. Inl (Rejected reason))"

definition world0 :: world where
  "world0 = \<lparr>log = [], unhandled = []\<rparr>"

definition refusing :: "js \<Rightarrow> res \<Rightarrow> error + res" where
  "refusing v r = Inl (Rejected ''not a text'')"

section \<open>Auxiliary facts\<close>

lemma ebind_simps [simp]: "ebind (Inl e) f = Inl e" "ebind (Inr x) f = f x"
  by (simp_all add: ebind_def)

lemma ebind_Inr_iff: "ebind m f = Inr y \<longleftrightarrow> (\<exists>x. m = Inr x \<and> f x = Inr y)"
  by (cases m) simp_all

lemma map_from_Inr_all2:
  assumes "map_from i f xs = Inr ys"
    and "\<And>x k y. f x k = Inr y \<Longrightarrow> P x y"
  shows "list_all2 P xs ys"
  using assms(1)
proof (induction xs arbitrary: i ys)
  case Nil
  then show ?case by simp
next
  case (Cons x xs)
  from Cons.prems obtain y zs where y: "f x i = Inr y"
    and zs: "map_from (Suc i) f xs = Inr zs" and ys: "ys = y # zs"
    by (auto simp: ebind_Inr_iff)
  from assms(2) [OF y] Cons.IH [OF zs] ys show ?case by simp
qed

lemma map_from_total:
  assumes "\<And>x k. x \<in> set xs \<Longrightarrow> \<exists>y. f x k = Inr y"
  shows "\<exists>ys. map_from i f xs = Inr ys"
  using assms
proof (induction xs arbitrary: i)
  case Nil
  then show ?case by simp
next
  case (Cons x xs)
  from Cons.prems [of x i] obtain y where y: "f x i = Inr y" by auto
  from Cons.IH [of "Suc i"] Cons.prems obtain ys
    where ys: "map_from (Suc i) f xs = Inr ys" by auto
  from y ys show ?case by simp
qed


lemma all2_anchors:
  assumes "list_all2 (\<lambda>x y. \<exists>a. anchors y = [a] \<and> Q x a) xs ys"
  shows "list_all2 Q xs (concat (map anchors ys))"
  using assms by (induction rule: list_all2_induct) auto



lemma split_on_not_Nil [simp]: "split_on c s \<noteq> []"
  by (induction s) (auto split: list.splits)

lemma split_on_no_sep: "c \<notin> set s \<Longrightarrow> split_on c s = [s]"
  by (induction s) auto

lemma lower_letters [simp]:
  "lower CHR ''a'' = CHR ''a''" "lower CHR ''b'' = CHR ''b''" "lower CHR ''c'' = CHR ''c''"
  "lower CHR ''d'' = CHR ''d''" "lower CHR ''e'' = CHR ''e''" "lower CHR ''g'' = CHR ''g''"
  "lower CHR ''i'' = CHR ''i''" "lower CHR ''k'' = CHR ''k''" "lower CHR ''m'' = CHR ''m''"
  "lower CHR ''o'' = CHR ''o''" "lower CHR ''p'' = CHR ''p''" "lower CHR ''r'' = CHR ''r''"
  "lower CHR ''s'' = CHR ''s''" "lower CHR ''t'' = CHR ''t''" "lower CHR ''u'' = CHR ''u''"
  "lower CHR ''v'' = CHR ''v''" "lower CHR ''w'' = CHR ''w''" "lower CHR ''y'' = CHR ''y''"
  "lower CHR ''h'' = CHR ''h''" "lower CHR ''-'' = CHR ''-''"
  by (simp_all add: lower_def)

lemma dispatch_feed:
  assumes "kind \<in> {''sitemap'', ''atom'', ''rss''}"
  shows "dispatch decode routes GET (''/'' @ kind) = Found (FeedProxy kind) []"
  using assms by (auto simp: routes_def segments_def)






lemma segments_post:
  assumes "slug \<noteq> []" "CHR ''/'' \<notin> set slug"
  shows "segments (''/posts/'' @ slug) = Some [''posts'', slug]"
  using assms by (simp add: segments_def split_on_no_sep)

lemma dispatch_post:
  assumes "slug \<noteq> []" "CHR ''/'' \<notin> set slug" "decode slug = Some slug"
  shows "dispatch decode routes GET (''/posts/'' @ slug) =
           Found (AppRender ''/post'' [''slug'']) [(''slug'', slug)]"
proof -
  define p where "p = ''/posts/'' @ slug"
  have "segments p = Some [''posts'', slug]"
    unfolding p_def using assms(1,2) by (rule segments_post)
  with assms(1,3) have "dispatch decode routes GET p =
      Found (AppRender ''/post'' [''slug'']) [(''slug'', slug)]"
    by (simp add: routes_def)
  then show ?thesis by (simp only: p_def)
qed

lemma escape_plain:
  "\<forall>c \<in> set s. c \<notin> {CHR ''&'', CHR ''<'', CHR ''>'', CHR 0x22, CHR 0x27} \<Longrightarrow> escape_html s = s"
  by (induction s) (auto simp: escape_html_def escape_char_def)

lemma categories_item_anchor:
  assumes "categories_item c k = Inr y"
  shows "\<exists>a. anchors y = [a] \<and>
    (\<exists>slug name. get_prop c ''slug'' = Inr slug \<and> get_prop c ''name'' = Inr name \<and>
       a = ([(''href'', JStr (''/posts/category/'' @ to_string slug))], [Expr name]))"
  using assms by (auto simp: categories_item_def ebind_Inr_iff)

lemma categories_item_total:
  assumes "c \<noteq> JNull" "c \<noteq> JUndefined"
  shows "\<exists>y. categories_item c k = Inr y"
  using assms by (cases c) (simp_all add: categories_item_def)


lemma map_from_enumerate_all2:
  assumes "map_from i f xs = Inr ys"
    and "\<And>x k y. f x k = Inr y \<Longrightarrow> P (k, x) y"
  shows "list_all2 P (enumerate i xs) ys"
  using assms(1)
proof (induction xs arbitrary: i ys)
  case Nil
  then show ?case by simp
next
  case (Cons x xs)
  from Cons.prems obtain y zs where y: "f x i = Inr y"
    and zs: "map_from (Suc i) f xs = Inr zs" and ys: "ys = y # zs"
    by (auto simp: ebind_Inr_iff)
  from assms(2) [OF y] Cons.IH [OF zs] ys show ?case by simp
qed


lemma categories_item_item:
  assumes "categories_item c k = Inr item"
  shows "\<exists>slug name. get_prop c ''slug'' = Inr slug \<and> get_prop c ''name'' = Inr name \<and>
           item = Tag ''div'' [(''key'', JNum (of_nat k))]
             [Tag ''a'' [(''href'', JStr (''/posts/category/'' @ to_string slug))] [Expr name]]"
  using assms by (auto simp: categories_item_def ebind_Inr_iff)

lemma escape_html_Nil [simp]: "escape_html [] = []"
  by (simp add: escape_html_def)

lemma join_text [simp]: "join_nodes False (map TextNode (texts_of (JStr t))) = escape_html t"
  by simp

section \<open>Pagination links of the index page\<close>



section \<open>The webhook receiver\<close>

text \<open>
  C2. A POST to \<^verbatim>\<open>/webhook-receiver\<close> starts one reinitialization of the render pipeline
  (\<open>Prepare\<close> is added to the log). When the reinitialization resolves the response has
  status 200 and an empty body; when it rejects the response has status 500 and an empty
  body.
\<close>

theorem webhook_response:
  "server butter (Inr ()) decode send_value
     \<lparr>req_method = POST, req_path = ''/webhook-receiver'', req_query = q\<rparr> w =
     (\<lparr>statusCode = 200, written = Some Empty\<rparr>, w\<lparr>log := log w @ [Prepare]\<rparr>) \<and>
   server butter (Inl e) decode send_value
     \<lparr>req_method = POST, req_path = ''/webhook-receiver'', req_query = q\<rparr> w =
     (\<lparr>statusCode = 500, written = Some Empty\<rparr>, w\<lparr>log := log w @ [Prepare]\<rparr>)"
  by (simp add: server_def routes_def segments_def webhook_receiver_def res_end_def
      res_status_def res0_def)

theorem webhook_response_witness:
  "server (failing ''down'') (Inr ()) Some refusing
     \<lparr>req_method = POST, req_path = ''/webhook-receiver'', req_query = []\<rparr> world0 =
     (\<lparr>statusCode = 200, written = Some Empty\<rparr>, \<lparr>log = [Prepare], unhandled = []\<rparr>) \<and>
   server (failing ''down'') (Inl (Rejected ''build failed'')) Some refusing
     \<lparr>req_method = POST, req_path = ''/webhook-receiver'', req_query = []\<rparr> world0 =
     (\<lparr>statusCode = 500, written = Some Empty\<rparr>, \<lparr>log = [Prepare], unhandled = []\<rparr>)"
  using webhook_response [of "failing ''down''" Some refusing "[]" world0 "Rejected ''build failed''"]
  by (simp add: world0_def)

section \<open>The feed proxy\<close>

text \<open>
  C3. For each of the routes \<^verbatim>\<open>/sitemap\<close>, \<^verbatim>\<open>/atom\<close> and \<^verbatim>\<open>/rss\<close>, a GET request makes
  exactly one call \<^verbatim>\<open>feed.retrieve\<close> of that kind, and when the call resolves to a
  response whose payload (\<^verbatim>\<open>s.data.data\<close>) is a text, as a feed is, the response has status
  200 and its body is exactly that text.
\<close>

theorem feed_passthrough:
  assumes "kind \<in> {''sitemap'', ''atom'', ''rss''}"
  shows "log (snd (server butter prepared decode send_value
                \<lparr>req_method = GET, req_path = ''/'' @ kind, req_query = q\<rparr> w)) =
           log w @ [Call (FeedRetrieve kind)] \<and>
         (\<forall>r payload.
            butter (FeedRetrieve kind) = Inr r \<and>
            get_prop (data r) ''data'' = Inr (JStr payload) \<longrightarrow>
            server butter prepared decode send_value
              \<lparr>req_method = GET, req_path = ''/'' @ kind, req_query = q\<rparr> w =
              (\<lparr>statusCode = 200, written = Some (Text payload)\<rparr>,
               w\<lparr>log := log w @ [Call (FeedRetrieve kind)]\<rparr>))"
  using dispatch_feed [OF assms, of decode]
  by (auto simp: server_def feed_proxy_def request_def res_send_def res0_def split: sum.splits)

theorem feed_passthrough_witness:
  "server (stub \<lparr>data = JObj [(''data'', JStr ''<rss version=\"2.0\"/>'')]\<rparr>) (Inr ()) Some refusing
     \<lparr>req_method = GET, req_path = ''/rss'', req_query = []\<rparr> world0 =
   (\<lparr>statusCode = 200, written = Some (Text ''<rss version=\"2.0\"/>'')\<rparr>,
    \<lparr>log = [Call (FeedRetrieve ''rss'')], unhandled = []\<rparr>)"
proof -
  have k: "''rss'' \<in> {''sitemap'', ''atom'', ''rss''}" by simp
  from feed_passthrough [OF k, of "stub \<lparr>data = JObj [(''data'', JStr ''<rss version=\"2.0\"/>'')]\<rparr>"
      "Inr ()" Some refusing "[]" world0]
  show ?thesis
    by (simp add: stub_def field_def world0_def)
qed

text \<open>
  C4. The feed routes have no rejection handler: when the call \<^verbatim>\<open>feed.retrieve\<close> of a GET
  to \<^verbatim>\<open>/sitemap\<close>, \<^verbatim>\<open>/atom\<close> or \<^verbatim>\<open>/rss\<close> rejects, the rejection is left unhandled and
  nothing is written to the response, neither a success nor an error.
\<close>

theorem feed_rejection_unhandled:
  assumes "kind \<in> {''sitemap'', ''atom'', ''rss''}"
    and "butter (FeedRetrieve kind) = Inl e"
  shows "server butter prepared decode send_value
           \<lparr>req_method = GET, req_path = ''/'' @ kind, req_query = q\<rparr> w =
           (\<lparr>statusCode = 200, written = None\<rparr>,
            w\<lparr>log := log w @ [Call (FeedRetrieve kind)], unhandled := unhandled w @ [e]\<rparr>)"
  using dispatch_feed [OF assms(1), of decode] assms(2)
  by (simp add: server_def feed_proxy_def request_def res0_def)

theorem feed_rejection_unhandled_witness:
  "server (failing ''timeout'') (Inr ()) Some refusing
     \<lparr>req_method = GET, req_path = ''/sitemap'', req_query = []\<rparr> world0 =
   (\<lparr>statusCode = 200, written = None\<rparr>,
    \<lparr>log = [Call (FeedRetrieve ''sitemap'')], unhandled = [Rejected ''timeout'']\<rparr>)"
proof -
  have k: "''sitemap'' \<in> {''sitemap'', ''atom'', ''rss''}" by simp
  have f: "failing ''timeout'' (FeedRetrieve ''sitemap'') = Inl (Rejected ''timeout'')"
    by (simp add: failing_def)
  from feed_rejection_unhandled [where butter = "failing ''timeout''" and prepared = "Inr ()"
      and decode = Some and send_value = refusing and q = "[]" and w = world0, OF k f]
  show ?thesis
    by (simp add: world0_def)
qed

section \<open>The page resolvers\<close>

text \<open>
  C5. Each of the six page resolvers (index, post, categories, category, product,
  products) makes exactly one call on the content API, returns the \<^verbatim>\<open>data\<close> of the
  response as it is when the call resolves, and returns the call's rejection when it
  rejects: no retry, no fallback value.
\<close>

theorem resolvers_one_read:
  "index_getInitialProps butter query w =
     (let c = PostList [(''page'', js_or (field query ''page'') (JNum 1)), (''page_size'', JNum 10)]
      in (case butter c of Inl e \<Rightarrow> Inl e | Inr r \<Rightarrow> Inr (data r), w\<lparr>log := log w @ [Call c]\<rparr>)) \<and>
   post_getInitialProps butter query w =
     (let c = PostRetrieve (field query ''slug'')
      in (case butter c of Inl e \<Rightarrow> Inl e | Inr r \<Rightarrow> Inr (data r), w\<lparr>log := log w @ [Call c]\<rparr>)) \<and>
   categories_getInitialProps butter query w =
     (let c = CategoryList
      in (case butter c of Inl e \<Rightarrow> Inl e | Inr r \<Rightarrow> Inr (data r), w\<lparr>log := log w @ [Call c]\<rparr>)) \<and>
   category_getInitialProps butter query w =
     (let c = CategoryRetrieve (field query ''slug'') [(''include'', JStr ''recent_posts'')]
      in (case butter c of Inl e \<Rightarrow> Inl e | Inr r \<Rightarrow> Inr (data r), w\<lparr>log := log w @ [Call c]\<rparr>)) \<and>
   product_getInitialProps butter query w =
     (let c = PageRetrieve ''product'' (field query ''slug'')
      in (case butter c of Inl e \<Rightarrow> Inl e | Inr r \<Rightarrow> Inr (data r), w\<lparr>log := log w @ [Call c]\<rparr>)) \<and>
   products_getInitialProps butter query w =
     (let c = PageList ''product''
      in (case butter c of Inl e \<Rightarrow> Inl e | Inr r \<Rightarrow> Inr (data r), w\<lparr>log := log w @ [Call c]\<rparr>))"
  by (simp add: index_getInitialProps_def post_getInitialProps_def categories_getInitialProps_def
      category_getInitialProps_def product_getInitialProps_def products_getInitialProps_def
      request_def ebind_def Let_def)

theorem resolvers_one_read_witness:
  "index_getInitialProps (failing ''network'') [] world0 =
     (Inl (Rejected ''network''),
      \<lparr>log = [Call (PostList [(''page'', JNum 1), (''page_size'', JNum 10)])], unhandled = []\<rparr>) \<and>
   category_getInitialProps (stub \<lparr>data = JStr ''payload''\<rparr>) [(''slug'', JStr ''news'')] world0 =
     (Inr (JStr ''payload''),
      \<lparr>log = [Call (CategoryRetrieve (JStr ''news'') [(''include'', JStr ''recent_posts'')])],
       unhandled = []\<rparr>)"
  using resolvers_one_read [of "failing ''network''" "[]" world0]
    resolvers_one_read [of "stub \<lparr>data = JStr ''payload''\<rparr>" "[(''slug'', JStr ''news'')]" world0]
  by (simp add: failing_def stub_def world0_def field_def js_or_def Let_def)

text \<open>
  C6, as claimed: every list resolver (post list, category list, product list) calls its
  endpoint with the page, 1 when the query has none, and a page size of 10. The category
  list and the product list resolvers do not: with no \<^verbatim>\<open>page\<close> in the query their calls
  are \<^verbatim>\<open>category.list()\<close> and \<^verbatim>\<open>page.list('product')\<close>, which carry neither a page nor a
  page size.
\<close>

theorem list_resolvers_pagination_counterexample:
  "log (snd (categories_getInitialProps (stub \<lparr>data = JArr []\<rparr>) [] world0)) =
     [Call CategoryList] \<and>
   \<not> paginated CategoryList (JNum 1) \<and>
   log (snd (products_getInitialProps (stub \<lparr>data = JArr []\<rparr>) [] world0)) =
     [Call (PageList ''product'')] \<and>
   \<not> paginated (PageList ''product'') (JNum 1)"
  by (simp add: categories_getInitialProps_def products_getInitialProps_def request_def world0_def
      paginated_def field_def)

text \<open>
  C6, amended: the post list resolver calls \<^verbatim>\<open>post.list\<close> with the query's page when
  that is truthy and with page 1 otherwise (so also when it is absent), and with a page
  size of 10; the category list resolver calls \<^verbatim>\<open>category.list()\<close> and the product list
  resolver \<^verbatim>\<open>page.list('product')\<close>, both without any page or page size.
\<close>

theorem list_resolvers_calls:
  "log (snd (index_getInitialProps butter query w)) =
     log w @ [Call (PostList
        [(''page'', if truthy (field query ''page'') then field query ''page'' else JNum 1),
         (''page_size'', JNum 10)])] \<and>
   paginated (PostList
        [(''page'', if truthy (field query ''page'') then field query ''page'' else JNum 1),
         (''page_size'', JNum 10)])
     (if truthy (field query ''page'') then field query ''page'' else JNum 1) \<and>
   log (snd (categories_getInitialProps butter query w)) = log w @ [Call CategoryList] \<and>
   call_params CategoryList = [] \<and>
   log (snd (products_getInitialProps butter query w)) = log w @ [Call (PageList ''product'')] \<and>
   call_params (PageList ''product'') = []"
  by (simp add: index_getInitialProps_def categories_getInitialProps_def
      products_getInitialProps_def request_def paginated_def field_def js_or_def Let_def)

theorem list_resolvers_calls_witness:
  "log (snd (index_getInitialProps (stub \<lparr>data = JNull\<rparr>) [] world0)) =
     [Call (PostList [(''page'', JNum 1), (''page_size'', JNum 10)])] \<and>
   log (snd (index_getInitialProps (stub \<lparr>data = JNull\<rparr>) [(''page'', JStr ''3'')] world0)) =
     [Call (PostList [(''page'', JStr ''3''), (''page_size'', JNum 10)])] \<and>
   log (snd (categories_getInitialProps (stub \<lparr>data = JNull\<rparr>) [(''page'', JStr ''3'')] world0)) =
     [Call CategoryList]"
  using list_resolvers_calls [of "stub \<lparr>data = JNull\<rparr>" "[]" world0]
    list_resolvers_calls [of "stub \<lparr>data = JNull\<rparr>" "[(''page'', JStr ''3'')]" world0]
  by (simp add: world0_def field_def)

section \<open>The post detail page\<close>

text \<open>
  C7. For a slug that is one non-empty path segment which the router decodes to itself,
  and for which \<^verbatim>\<open>post.retrieve\<close> resolves to a post with a title and a body (strings;
  its SEO title something that can be rendered), a GET to \<^verbatim>\<open>/posts/<slug>\<close> makes that one
  call and answers 200 with the post page. The markup of the page, as the framework sends
  it, is the root \<^verbatim>\<open><div>\<close> holding the title as the text of the heading and the body HTML
  as it is, not entity-escaped. The page as first written (without the head) has the same
  markup. Text is entity-escaped, which leaves a title without \<^verbatim>\<open>&\<close>, \<^verbatim>\<open><\<close>, \<^verbatim>\<open>>\<close> and
  quotes as it is.
\<close>

theorem post_detail_page:
  assumes "slug \<noteq> []" and "CHR ''/'' \<notin> set slug" and "decode slug = Some slug"
    and "butter (PostRetrieve (JStr slug)) = Inr r"
    and "data r = JObj props"
    and "get_prop (field props ''data'') ''title'' = Inr (JStr title)"
    and "get_prop (field props ''data'') ''body'' = Inr (JStr body)"
    and "get_prop (field props ''data'') ''seo_title'' = Inr seo_title"
    and "valid_child seo_title"
  shows "server butter prepared decode send_value
            \<lparr>req_method = GET, req_path = ''/posts/'' @ slug, req_query = q\<rparr> w =
          (\<lparr>statusCode = 200,
            written = Some (Document
              (''<div data-reactroot=\"\"><h1>'' @ escape_html title @ ''</h1><div>'' @ body @
               ''</div></div>''))\<rparr>,
           w\<lparr>log := log w @ [Call (PostRetrieve (JStr slug))]\<rparr>) \<and>
         ebind (post_render props) render_markup =
           Inr (Document
             (''<div data-reactroot=\"\"><h1>'' @ escape_html title @ ''</h1><div>'' @ body @
              ''</div></div>'')) \<and>
         ((\<forall>c \<in> set title. c \<notin> {CHR ''&'', CHR ''<'', CHR ''>'', CHR 0x22, CHR 0x27}) \<longrightarrow>
            escape_html title = title)"
proof (intro conjI)
  have "\<exists>kvs. field props ''data'' = JObj kvs"
    using assms(6) by (cases "field props ''data''") simp_all
  then obtain kvs where kvs: "field props ''data'' = JObj kvs" by blast
  define p where "p = ''/posts/'' @ slug"
  have d: "dispatch decode routes GET p = Found (AppRender ''/post'' [''slug'']) [(''slug'', slug)]"
    unfolding p_def using assms(1-3) by (rule dispatch_post)
  have "server butter prepared decode send_value
            \<lparr>req_method = GET, req_path = p, req_query = q\<rparr> w =
          (\<lparr>statusCode = 200,
            written = Some (Document
              (''<div data-reactroot=\"\"><h1>'' @ escape_html title @ ''</h1><div>'' @ body @
               ''</div></div>''))\<rparr>,
           w\<lparr>log := log w @ [Call (PostRetrieve (JStr slug))]\<rparr>)"
    using assms(4-9) kvs
    by (simp add: server_def d app_render_def pages_def
        post_getInitialProps_def request_def param_def field_def [of "[(''slug'', JStr slug)]"]
        post_render_seo_def render_markup_def render_to_string_def tag_html_def attr_html_def
        root_attrs_def)
  then show "server butter prepared decode send_value
            \<lparr>req_method = GET, req_path = ''/posts/'' @ slug, req_query = q\<rparr> w =
          (\<lparr>statusCode = 200,
            written = Some (Document
              (''<div data-reactroot=\"\"><h1>'' @ escape_html title @ ''</h1><div>'' @ body @
               ''</div></div>''))\<rparr>,
           w\<lparr>log := log w @ [Call (PostRetrieve (JStr slug))]\<rparr>)"
    unfolding p_def .
next
  show "ebind (post_render props) render_markup =
           Inr (Document
             (''<div data-reactroot=\"\"><h1>'' @ escape_html title @ ''</h1><div>'' @ body @
              ''</div></div>''))"
    using assms(6,7)
    by (simp add: post_render_def render_markup_def render_to_string_def tag_html_def
        attr_html_def root_attrs_def)
next
  show "(\<forall>c \<in> set title. c \<notin> {CHR ''&'', CHR ''<'', CHR ''>'', CHR 0x22, CHR 0x27}) \<longrightarrow>
            escape_html title = title"
    using escape_plain by blast
qed

theorem post_detail_page_witness:
  "server
      (stub \<lparr>data = JObj [(''data'', JObj [(''title'', JStr ''Tom & Jerry''),
                                           (''body'', JStr ''<p>Hi <b>there</b></p>''),
                                           (''seo_title'', JStr ''Tom'')])]\<rparr>)
      (Inr ()) Some refusing
      \<lparr>req_method = GET, req_path = ''/posts/tom-and-jerry'', req_query = []\<rparr> world0 =
    (\<lparr>statusCode = 200,
      written = Some (Document
        ''<div data-reactroot=\"\"><h1>Tom &amp; Jerry</h1><div><p>Hi <b>there</b></p></div></div>'')\<rparr>,
     \<lparr>log = [Call (PostRetrieve (JStr ''tom-and-jerry''))], unhandled = []\<rparr>)"
  using post_detail_page [where slug = "''tom-and-jerry''" and decode = Some
      and butter = "stub \<lparr>data = JObj [(''data'', JObj [(''title'', JStr ''Tom & Jerry''),
                                           (''body'', JStr ''<p>Hi <b>there</b></p>''),
                                           (''seo_title'', JStr ''Tom'')])]\<rparr>"
      and r = "\<lparr>data = JObj [(''data'', JObj [(''title'', JStr ''Tom & Jerry''),
                                           (''body'', JStr ''<p>Hi <b>there</b></p>''),
                                           (''seo_title'', JStr ''Tom'')])]\<rparr>"
      and props = "[(''data'', JObj [(''title'', JStr ''Tom & Jerry''),
                                           (''body'', JStr ''<p>Hi <b>there</b></p>''),
                                           (''seo_title'', JStr ''Tom'')])]"
      and title = "''Tom & Jerry''" and body = "''<p>Hi <b>there</b></p>''"
      and seo_title = "JStr ''Tom''" and prepared = "Inr ()" and send_value = refusing
      and q = "[]" and w = world0]
  by (simp add: stub_def field_def escape_html_def escape_char_def world0_def)

section \<open>Links of the list pages\<close>

text \<open>
  C8. For a category list response (an array of categories, none of them \<^verbatim>\<open>null\<close>), the
  categories page renders, and what it renders is a \<^verbatim>\<open><div>\<close> holding exactly one
  \<^verbatim>\<open><div>\<close> per category, in order, each holding exactly one \<^verbatim>\<open><a>\<close>: its \<^verbatim>\<open>href\<close> is
  \<^verbatim>\<open>/posts/category/<slug>\<close> with the category's slug and its text is the category's name.
\<close>

theorem categories_links:
  assumes "field props ''data'' = JArr cats"
    and "\<forall>c \<in> set cats. c \<noteq> JNull \<and> c \<noteq> JUndefined"
  shows "\<exists>items.
     categories_render props = Inr (Tag ''div'' [] [Items items]) \<and>
     list_all2 (\<lambda>kc item. \<exists>slug name.
         get_prop (snd kc) ''slug'' = Inr slug \<and> get_prop (snd kc) ''name'' = Inr name \<and>
         item = Tag ''div'' [(''key'', JNum (of_nat (fst kc)))]
                  [Tag ''a'' [(''href'', JStr (''/posts/category/'' @ to_string slug))]
                     [Expr name]])
       (enumerate 0 cats) items \<and>
     list_all2 (\<lambda>c a. \<exists>slug name.
         get_prop c ''slug'' = Inr slug \<and> get_prop c ''name'' = Inr name \<and>
         a = ([(''href'', JStr (''/posts/category/'' @ to_string slug))], [Expr name]))
       cats (anchors (Tag ''div'' [] [Items items]))"
proof -
  have "\<exists>ys. map_from 0 categories_item cats = Inr ys"
    by (rule map_from_total) (use assms(2) categories_item_total in auto)
  then obtain ys where ys: "map_from 0 categories_item cats = Inr ys" by blast
  from ys have pinned: "list_all2 (\<lambda>kc item. \<exists>slug name.
         get_prop (snd kc) ''slug'' = Inr slug \<and> get_prop (snd kc) ''name'' = Inr name \<and>
         item = Tag ''div'' [(''key'', JNum (of_nat (fst kc)))]
                  [Tag ''a'' [(''href'', JStr (''/posts/category/'' @ to_string slug))]
                     [Expr name]])
       (enumerate 0 cats) ys"
    by (rule map_from_enumerate_all2) (use categories_item_item in auto)
  from ys have "list_all2 (\<lambda>c y. \<exists>a. anchors y = [a] \<and>
    (\<exists>slug name. get_prop c ''slug'' = Inr slug \<and> get_prop c ''name'' = Inr name \<and>
       a = ([(''href'', JStr (''/posts/category/'' @ to_string slug))], [Expr name]))) cats ys"
    by (rule map_from_Inr_all2) (rule categories_item_anchor)
  then have "list_all2 (\<lambda>c a. \<exists>slug name.
         get_prop c ''slug'' = Inr slug \<and> get_prop c ''name'' = Inr name \<and>
         a = ([(''href'', JStr (''/posts/category/'' @ to_string slug))], [Expr name]))
       cats (concat (map anchors ys))"
    by (rule all2_anchors)
  with ys pinned assms(1) show ?thesis by (simp add: categories_render_def)
qed

theorem categories_links_witness:
  "categories_render
     [(''data'', JArr [JObj [(''slug'', JStr ''news''), (''name'', JStr ''News'')],
                       JObj [(''name'', JStr ''Tips''), (''slug'', JStr ''tips'')]])] =
   Inr (Tag ''div'' []
     [Items
       [Tag ''div'' [(''key'', JNum 0)]
          [Tag ''a'' [(''href'', JStr ''/posts/category/news'')] [Expr (JStr ''News'')]],
        Tag ''div'' [(''key'', JNum 1)]
          [Tag ''a'' [(''href'', JStr ''/posts/category/tips'')] [Expr (JStr ''Tips'')]]]])"
proof -
  let ?props = "[(''data'', JArr [JObj [(''slug'', JStr ''news''), (''name'', JStr ''News'')],
                       JObj [(''name'', JStr ''Tips''), (''slug'', JStr ''tips'')]])]"
  let ?cats = "[JObj [(''slug'', JStr ''news''), (''name'', JStr ''News'')],
                JObj [(''name'', JStr ''Tips''), (''slug'', JStr ''tips'')]]"
  have f: "field ?props ''data'' = JArr ?cats"
    by (simp add: field_def)
  have n: "\<forall>c \<in> set ?cats. c \<noteq> JNull \<and> c \<noteq> JUndefined"
    by simp
  from categories_links [OF f n] obtain items
    where r: "categories_render ?props = Inr (Tag ''div'' [] [Items items])"
      and l: "list_all2 (\<lambda>kc item. \<exists>slug name.
         get_prop (snd kc) ''slug'' = Inr slug \<and> get_prop (snd kc) ''name'' = Inr name \<and>
         item = Tag ''div'' [(''key'', JNum (of_nat (fst kc)))]
                  [Tag ''a'' [(''href'', JStr (''/posts/category/'' @ to_string slug))]
                     [Expr name]])
       (enumerate 0 ?cats) items"
    by blast
  from l have "items =
       [Tag ''div'' [(''key'', JNum 0)]
          [Tag ''a'' [(''href'', JStr ''/posts/category/news'')] [Expr (JStr ''News'')]],
        Tag ''div'' [(''key'', JNum 1)]
          [Tag ''a'' [(''href'', JStr ''/posts/category/tips'')] [Expr (JStr ''Tips'')]]]"
    by (auto simp: list_all2_Cons1 field_def)
  with r show ?thesis by simp
qed



section \<open>The category page without recent posts\<close>

text \<open>
  C10. The category page reads \<^verbatim>\<open>this.props.data.recent_posts\<close> and maps over it without
  any test: for every category payload whose \<^verbatim>\<open>recent_posts\<close> is absent or is no array,
  \<^verbatim>\<open>render\<close> throws a TypeError; no page is produced.
\<close>

theorem category_render_throws:
  assumes "\<forall>xs. get_prop (field props ''data'') ''recent_posts'' \<noteq> Inr (JArr xs)"
  shows "category_render props = Inl TypeError"
proof (cases "get_prop (field props ''data'') ''name''")
  case (Inl e)
  then show ?thesis
    by (cases "field props ''data''") (simp_all add: category_render_def)
next
  case name: (Inr name)
  show ?thesis
  proof (cases "get_prop (field props ''data'') ''recent_posts''")
    case (Inl e)
    then show ?thesis
      by (cases "field props ''data''") (simp_all add: category_render_def)
  next
    case (Inr rp)
    with assms have "js_map rp category_post = Inl TypeError"
      by (cases rp) simp_all
    with name Inr show ?thesis by (simp add: category_render_def)
  qed
qed

theorem category_render_throws_witness:
  "category_render [(''data'', JObj [(''slug'', JStr ''news''), (''name'', JStr ''News'')])] =
     Inl TypeError \<and>
   category_render [(''data'', JObj [(''name'', JStr ''News''), (''recent_posts'', JNull)])] =
     Inl TypeError \<and>
   category_render [(''data'', JObj [(''name'', JStr ''News''),
                                     (''recent_posts'', JObj [(''0'', JStr ''a'')])])] =
     Inl TypeError \<and>
   category_render [(''data'', JObj [(''name'', JStr ''News''),
       (''recent_posts'', JArr [JObj [(''slug'', JStr ''a''), (''title'', JStr ''A'')]])])] =
     Inr (Tag ''div'' []
       [Head [Tag ''title'' [] [Expr (JStr ''News'')]],
        Tag ''h1'' [] [Expr (JStr ''News'')],
        Tag ''div'' []
          [Items [Tag ''div'' [(''key'', JNum 0)]
                    [Tag ''a'' [(''href'', JStr ''/posts/a'')] [Expr (JStr ''A'')]]]]])"
proof -
  have a: "\<forall>xs. get_prop (field [(''data'', JObj [(''slug'', JStr ''news''), (''name'', JStr ''News'')])]
             ''data'') ''recent_posts'' \<noteq> Inr (JArr xs)"
    by (simp add: field_def)
  have b: "\<forall>xs. get_prop (field [(''data'', JObj [(''name'', JStr ''News''), (''recent_posts'', JNull)])]
             ''data'') ''recent_posts'' \<noteq> Inr (JArr xs)"
    by (simp add: field_def)
  have c: "\<forall>xs. get_prop (field [(''data'', JObj [(''name'', JStr ''News''),
                                     (''recent_posts'', JObj [(''0'', JStr ''a'')])])]
             ''data'') ''recent_posts'' \<noteq> Inr (JArr xs)"
    by (simp add: field_def)
  show ?thesis
    using category_render_throws [OF a] category_render_throws [OF b] category_render_throws [OF c]
    by (simp add: category_render_def category_post_def field_def)
qed

end
